theory Spec2Isabelle
  imports Main "HOL-Library.AList" "HOL-Library.Sublist"
begin

section \<open>Provider registry (registry.py)\<close>

subsection \<open>Strings and \<^verbatim>\<open>str.lower\<close>\<close>

text \<open>
  Python strings are modelled as \<^typ>\<open>string\<close>; a \<^typ>\<open>char\<close> stands for the code
  point of the same number (U+0000 to U+00FF). On these code points \<^verbatim>\<open>str.lower\<close>
  adds 32 to the letters A to Z and to U+00C0 .. U+00DE except the multiplication
  sign U+00D7, and leaves every other code point alone.
\<close>

definition lower_char :: "char \<Rightarrow> char" where
  "lower_char c =
     (let n = (of_char c :: nat)
      in if (65 \<le> n \<and> n \<le> 90) \<or> (192 \<le> n \<and> n \<le> 222 \<and> n \<noteq> 215)
         then char_of (n + 32) else c)"

definition lower :: "string \<Rightarrow> string" where
  "lower s = map lower_char s"

subsection \<open>ProviderKind, ProviderDescriptor, errors\<close>

datatype ProviderKind = LIBRARY | LIST


text \<open>
  A provider class is referred to by the identity of the class object; the registry
  never looks inside it.
\<close>

type_synonym class_ref = nat

record ProviderDescriptor =
  namespace :: string
  kind :: ProviderKind
  provider_cls :: class_ref

text \<open>
  The dataclass constructor followed by \<^verbatim>\<open>__post_init__\<close>, which lowercases the
  namespace.
\<close>

definition ProviderDescriptor_init ::
    "string \<Rightarrow> ProviderKind \<Rightarrow> class_ref \<Rightarrow> ProviderDescriptor" where
  "ProviderDescriptor_init ns k cls =
     \<lparr>namespace = lower ns, kind = k, provider_cls = cls\<rparr>"

text \<open>
  Exceptions, by class, with their message. The repository itself raises
  \<^verbatim>\<open>ValueError\<close> and \<^verbatim>\<open>KeyError\<close>; the others come from imports and from plugin code.
\<close>

datatype error =
    ValueError string
  | ImportError string
  | KeyError string
  | AttributeError string
  | TypeError string
  | OtherException string  \<comment> \<open>any other subclass of \<^verbatim>\<open>Exception\<close>\<close>
  | BaseException string  \<comment> \<open>outside \<^verbatim>\<open>Exception\<close>: \<^verbatim>\<open>SystemExit\<close>, \<^verbatim>\<open>KeyboardInterrupt\<close>\<close>

text \<open>What \<^verbatim>\<open>except Exception\<close> and \<^verbatim>\<open>except TypeError\<close> catch.\<close>

fun is_Exception :: "error \<Rightarrow> bool" where
  "is_Exception (BaseException _) = False"
| "is_Exception _ = True"

fun is_TypeError :: "error \<Rightarrow> bool" where
  "is_TypeError (TypeError _) = True"
| "is_TypeError _ = False"

subsection \<open>ProviderRegistry\<close>

text \<open>
  The field \<^verbatim>\<open>_providers\<close> is a Python dict: an association list in insertion order,
  where storing at a key that is present replaces the value in place and storing at a
  new key appends (this is \<^const>\<open>AList.update\<close>), and where a lookup is
  \<^const>\<open>map_of\<close>.
\<close>

type_synonym ProviderRegistry = "((ProviderKind \<times> string) \<times> ProviderDescriptor) list"

definition empty_registry :: ProviderRegistry where
  "empty_registry = []"

text \<open>\<^verbatim>\<open>register\<close> stores the descriptor and returns it; the registry is returned updated.\<close>

definition register :: "ProviderDescriptor \<Rightarrow> ProviderRegistry \<Rightarrow> ProviderDescriptor \<times> ProviderRegistry" where
  "register descriptor r =
     (let key = (kind descriptor, namespace descriptor)
      in (descriptor, AList.update key descriptor r))"

definition get :: "ProviderRegistry \<Rightarrow> ProviderKind \<Rightarrow> string \<Rightarrow> ProviderDescriptor option" where
  "get r k ns = map_of r (k, lower ns)"



definition available :: "ProviderRegistry \<Rightarrow> ProviderDescriptor list" where
  "available r = map snd r"

text \<open>
  The registry states a program can reach: a fresh registry, changed only by calls of
  \<^verbatim>\<open>register\<close> (the other methods do not write).
\<close>

fun registers :: "ProviderDescriptor list \<Rightarrow> ProviderRegistry \<Rightarrow> ProviderRegistry" where
  "registers [] r = r"
| "registers (d # ds) r = registers ds (snd (register d r))"

text \<open>How many descriptors the registry holds at a key.\<close>

definition live_at :: "ProviderRegistry \<Rightarrow> ProviderKind \<times> string \<Rightarrow> nat" where
  "live_at r key = length (filter (\<lambda>entry. fst entry = key) r)"


subsection \<open>The process-wide registry\<close>

text \<open>
  Registries are objects: \<^verbatim>\<open>heap\<close> holds every \<^verbatim>\<open>ProviderRegistry\<close> instance constructed
  so far, an instance's address is its index, and the module variable
  \<^verbatim>\<open>_GLOBAL_REGISTRY\<close> holds an address or \<^verbatim>\<open>None\<close>.
\<close>

type_synonym addr = nat

record gstate =
  GLOBAL_REGISTRY :: "addr option"
  heap :: "ProviderRegistry list"

definition initial_gstate :: gstate where
  "initial_gstate = \<lparr>GLOBAL_REGISTRY = None, heap = []\<rparr>"

definition get_global_registry :: "gstate \<Rightarrow> addr \<times> gstate" where
  "get_global_registry g =
     (case GLOBAL_REGISTRY g of
        None \<Rightarrow>
          (let a = length (heap g)
           in (a, g\<lparr>GLOBAL_REGISTRY := Some a, heap := heap g @ [empty_registry]\<rparr>))
      | Some a \<Rightarrow> (a, g))"

text \<open>
  The methods, called on the instance at an address. A Python reference always points
  to a live object; at an address that holds no instance the store is left as it is.
\<close>

definition register_at :: "addr \<Rightarrow> ProviderDescriptor \<Rightarrow> gstate \<Rightarrow> ProviderDescriptor \<times> gstate" where
  "register_at a descriptor g =
     (descriptor, g\<lparr>heap := (heap g)[a := snd (register descriptor (heap g ! a))]\<rparr>)"

definition register_kind :: "ProviderKind \<Rightarrow> string \<Rightarrow> class_ref \<Rightarrow> gstate \<Rightarrow> class_ref \<times> gstate" where
  "register_kind k ns cls g =
     (let descriptor = ProviderDescriptor_init ns k cls;
          (a, g1) = get_global_registry g;
          (_, g2) = register_at a descriptor g1
      in (cls, g2))"

definition register_library_provider :: "string \<Rightarrow> class_ref \<Rightarrow> gstate \<Rightarrow> class_ref \<times> gstate" where
  "register_library_provider ns cls g = register_kind LIBRARY ns cls g"

definition register_list_provider :: "string \<Rightarrow> class_ref \<Rightarrow> gstate \<Rightarrow> class_ref \<times> gstate" where
  "register_list_provider ns cls g = register_kind LIST ns cls g"

text \<open>
  What a client of the module can do, in any order: call the accessor, call a method
  of a registry it holds (\<^verbatim>\<open>get\<close>, \<^verbatim>\<open>require\<close> and \<^verbatim>\<open>available\<close> only read), or use a
  registration helper. \<^verbatim>\<open>run\<close> collects what the accessor returned, call by call.
\<close>

datatype action =
    CallGetGlobalRegistry
  | CallRegister addr ProviderDescriptor
  | CallGet addr ProviderKind string
  | CallRequire addr ProviderKind string
  | CallAvailable addr
  | CallRegisterLibraryProvider string class_ref
  | CallRegisterListProvider string class_ref

fun perform :: "action \<Rightarrow> gstate \<Rightarrow> addr option \<times> gstate" where
  "perform CallGetGlobalRegistry g = (let (a, g') = get_global_registry g in (Some a, g'))"
| "perform (CallRegister a d) g = (None, snd (register_at a d g))"
| "perform (CallGet a k ns) g = (None, g)"
| "perform (CallRequire a k ns) g = (None, g)"
| "perform (CallAvailable a) g = (None, g)"
| "perform (CallRegisterLibraryProvider ns cls) g = (None, snd (register_library_provider ns cls g))"
| "perform (CallRegisterListProvider ns cls) g = (None, snd (register_list_provider ns cls g))"

fun run :: "action list \<Rightarrow> gstate \<Rightarrow> addr list \<times> gstate" where
  "run [] g = ([], g)"
| "run (act # acts) g =
     (let (r, g1) = perform act g; (rs, g2) = run acts g1
      in (case r of None \<Rightarrow> rs | Some a \<Rightarrow> a # rs, g2))"

text \<open>
  The state of the module as long as only the accessor constructs registries: nothing
  constructed and the variable unset, or one instance and the variable pointing to it.
\<close>

definition one_instance :: "gstate \<Rightarrow> bool" where
  "one_instance g =
     (case GLOBAL_REGISTRY g of
        None \<Rightarrow> heap g = []
      | Some a \<Rightarrow> a = 0 \<and> length (heap g) = 1)"

section \<open>Dynamic reference resolver (loader.py)\<close>

text \<open>
  An object is its identity and its attributes. Looking an attribute up runs code (a
  property, a descriptor, \<^verbatim>\<open>__getattr__\<close>): the lookup finds a value, finds nothing
  (\<^verbatim>\<open>AttributeError\<close>), or raises another exception, given by its class. The loop of
  \<^verbatim>\<open>load_object\<close> looks each name up twice, once inside \<^verbatim>\<open>hasattr\<close> and once in
  \<^verbatim>\<open>getattr\<close>, and the two lookups need not agree: an object lists, for each name, what
  the first lookup does and what the second does. A name that is not listed is not bound.
  An exception that a lookup raises is foreign code's: it is passed on as
  \<^const>\<open>OtherException\<close> with its class, apart from the errors this module raises itself.
\<close>

datatype 'a outcome = Found 'a | Missing | Raised string

datatype pyobj =
  PyObj (obj_id: nat) (obj_attrs: "(string \<times> pyobj outcome \<times> pyobj outcome) list")

text \<open>An ordinary attribute: both lookups find the value.\<close>

definition plain :: "pyobj \<Rightarrow> pyobj outcome \<times> pyobj outcome" where
  "plain v = (Found v, Found v)"

text \<open>
  \<^verbatim>\<open>hasattr\<close> performs the lookup, answers \<^verbatim>\<open>False\<close> on \<^verbatim>\<open>AttributeError\<close> and lets every
  other exception through. \<^verbatim>\<open>getattr\<close> without a default performs the lookup and lets
  every exception through.
\<close>

definition hasattr :: "pyobj \<Rightarrow> string \<Rightarrow> error + bool" where
  "hasattr obj attr =
     (case map_of (obj_attrs obj) attr of
        None \<Rightarrow> Inr False
      | Some (first, second) \<Rightarrow>
          (case first of
             Found v \<Rightarrow> Inr True
           | Missing \<Rightarrow> Inr False
           | Raised cls \<Rightarrow> Inl (OtherException cls)))"

definition getattr :: "pyobj \<Rightarrow> string \<Rightarrow> error + pyobj" where
  "getattr obj attr =
     (case map_of (obj_attrs obj) attr of
        None \<Rightarrow> Inl (AttributeError attr)
      | Some (first, second) \<Rightarrow>
          (case second of
             Found v \<Rightarrow> Inr v
           | Missing \<Rightarrow> Inl (AttributeError attr)
           | Raised cls \<Rightarrow> Inl (OtherException cls)))"

text \<open>
  \<^verbatim>\<open>importlib.import_module\<close> is the host's: it returns the module object or raises.
\<close>

type_synonym importer = "string \<Rightarrow> error + pyobj"

text \<open>
  \<^verbatim>\<open>s.split(sep)\<close> cuts at every separator and keeps empty pieces;
  \<^verbatim>\<open>s.split(sep, 1)\<close>, used where the separator occurs, cuts at the first one only.
\<close>

fun str_split :: "char \<Rightarrow> string \<Rightarrow> string list" where
  "str_split sep [] = [[]]"
| "str_split sep (c # cs) =
     (if c = sep then [] # str_split sep cs
      else (case str_split sep cs of
              w # ws \<Rightarrow> (c # w) # ws
            | [] \<Rightarrow> [[c]]))"

definition str_split1 :: "char \<Rightarrow> string \<Rightarrow> string \<times> string" where
  "str_split1 sep s = (takeWhile (\<lambda>c. c \<noteq> sep) s, drop 1 (dropWhile (\<lambda>c. c \<noteq> sep) s))"

definition format_message :: string where
  "format_message =
     ''Import path must be in '' @ [CHR 0x27] @ ''module:qualname'' @ [CHR 0x27] @ '' format''"

definition names_required_message :: string where
  "names_required_message = ''Both module and attribute names are required''"


definition attribute_message :: "string \<Rightarrow> string \<Rightarrow> string" where
  "attribute_message attr import_path =
     ''Attribute '' @ [CHR 0x27] @ attr @ [CHR 0x27] @ '' not found while resolving ''
       @ [CHR 0x27] @ import_path @ [CHR 0x27]"

text \<open>The loop over the dotted names.\<close>

fun resolve_attrs :: "string \<Rightarrow> pyobj \<Rightarrow> string list \<Rightarrow> error + pyobj" where
  "resolve_attrs import_path obj [] = Inr obj"
| "resolve_attrs import_path obj (attr # rest) =
     (case hasattr obj attr of
        Inl e \<Rightarrow> Inl e
      | Inr present \<Rightarrow>
          if \<not> present then Inl (ValueError (attribute_message attr import_path))
          else (case getattr obj attr of
                  Inl e \<Rightarrow> Inl e
                | Inr obj' \<Rightarrow> resolve_attrs import_path obj' rest))"

definition load_object :: "importer \<Rightarrow> string \<Rightarrow> error + pyobj" where
  "load_object import_module import_path =
     (if CHR '':'' \<notin> set import_path then Inl (ValueError format_message)
      else
        (let (module_path, qualname) = str_split1 (CHR '':'') import_path
         in if module_path = [] \<or> qualname = [] then Inl (ValueError names_required_message)
            else (case import_module module_path of
                    Inl e \<Rightarrow> Inl e
                  | Inr m \<Rightarrow> resolve_attrs import_path m (str_split (CHR ''.'') qualname))))"


subsection \<open>The specification's vocabulary\<close>


text \<open>
  The specification's walk: \<open>reaches obj names obj'\<close> when following the names from
  \<open>obj\<close>, left to right, each one existing on the object reached so far (\<^verbatim>\<open>hasattr\<close>
  answers \<^verbatim>\<open>True\<close> and \<^verbatim>\<open>getattr\<close> gives the next object), ends at \<open>obj'\<close>.
\<close>

inductive reaches :: "pyobj \<Rightarrow> string list \<Rightarrow> pyobj \<Rightarrow> bool" where
  reaches_Nil: "reaches obj [] obj"
| reaches_Cons:
    "hasattr obj name = Inr True \<Longrightarrow> getattr obj name = Inr obj'
     \<Longrightarrow> reaches obj' names obj''
     \<Longrightarrow> reaches obj (name # names) obj''"

subsection \<open>Example hosts and modules\<close>

text \<open>
  A host with one importable module; a module that exposes \<^verbatim>\<open>Class.attr\<close>, the same
  module with \<^verbatim>\<open>attr\<close> removed, and a module on which looking \<^verbatim>\<open>a:b\<close> up raises
  \<^verbatim>\<open>RuntimeError\<close>.
\<close>

definition single_module :: "string \<Rightarrow> pyobj \<Rightarrow> importer" where
  "single_module name m q = (if q = name then Inr m else Inl (ImportError q))"

definition module_Class_attr :: pyobj where
  "module_Class_attr =
     PyObj 0 [(''Class'', plain (PyObj 1 [(''attr'', plain (PyObj 2 []))]))]"

definition module_Class :: pyobj where
  "module_Class = PyObj 0 [(''Class'', plain (PyObj 1 []))]"


section \<open>Extension-point loader (registry.py, load_entry_points)\<close>

text \<open>
  What \<^verbatim>\<open>entry_point.load()\<close> can return, as far as the loader looks at it:
  \<^item> a callable that is not a class, with what calling it does;
  \<^item> a class, with its identity, the class attributes \<^verbatim>\<open>NAMESPACE\<close> (a string where
    present, as \<^verbatim>\<open>BaseProvider\<close> declares it) and \<^verbatim>\<open>PROVIDER_KIND\<close> (any value where
    present), and what calling the class does;
  \<^item> any other object.
  Plugin code is arbitrary: a call gets the global state, may change it, and returns
  or raises. A call with one argument always gets the global registry's address.
\<close>

datatype pyval = KindVal ProviderKind | NoneVal | OtherVal

record behaviour =
  call_with_registry :: "addr \<Rightarrow> gstate \<Rightarrow> error option \<times> gstate"
  call_without_args :: "gstate \<Rightarrow> error option \<times> gstate"

datatype loaded =
    Function nat behaviour
  | Class class_ref "string option" "pyval option" behaviour
  | Plain nat

text \<open>The identity of the object, which is what the log messages print of it.\<close>

fun ref_of :: "loaded \<Rightarrow> nat" where
  "ref_of (Function i _) = i"
| "ref_of (Class cls _ _ _) = cls"
| "ref_of (Plain i) = i"

record entry_point =
  ep_name :: string
  ep_load :: "gstate \<Rightarrow> (error + loaded) \<times> gstate"

text \<open>
  Python's \<^verbatim>\<open>callable\<close> holds of functions and of every class (calling a class
  constructs an instance); \<^verbatim>\<open>isinstance(obj, type)\<close> holds of classes only.
\<close>

fun callable :: "loaded \<Rightarrow> bool" where
  "callable (Function _ _) = True"
| "callable (Class _ _ _ _) = True"
| "callable (Plain _) = False"

fun isinstance_type :: "loaded \<Rightarrow> bool" where
  "isinstance_type (Class _ _ _ _) = True"
| "isinstance_type _ = False"

text \<open>\<^verbatim>\<open>obj(registry)\<close> and \<^verbatim>\<open>obj()\<close>; calling what is not callable is a \<^verbatim>\<open>TypeError\<close>.\<close>

fun call1 :: "loaded \<Rightarrow> addr \<Rightarrow> gstate \<Rightarrow> error option \<times> gstate" where
  "call1 (Function _ b) a g = call_with_registry b a g"
| "call1 (Class _ _ _ b) a g = call_with_registry b a g"
| "call1 (Plain _) a g = (Some (TypeError ''object is not callable''), g)"

fun call0 :: "loaded \<Rightarrow> gstate \<Rightarrow> error option \<times> gstate" where
  "call0 (Function _ b) g = call_without_args b g"
| "call0 (Class _ _ _ b) g = call_without_args b g"
| "call0 (Plain _) g = (Some (TypeError ''object is not callable''), g)"

text \<open>\<^verbatim>\<open>getattr(obj, "NAMESPACE", default)\<close> and \<^verbatim>\<open>getattr(obj, "PROVIDER_KIND", None)\<close>.\<close>

fun getattr_NAMESPACE :: "loaded \<Rightarrow> string \<Rightarrow> string" where
  "getattr_NAMESPACE (Class _ (Some ns) _ _) dflt = ns"
| "getattr_NAMESPACE _ dflt = dflt"

fun getattr_PROVIDER_KIND :: "loaded \<Rightarrow> pyval" where
  "getattr_PROVIDER_KIND (Class _ _ (Some v) _) = v"
| "getattr_PROVIDER_KIND _ = NoneVal"

text \<open>
  The records the loader writes to its logger: \<^verbatim>\<open>_LOG.exception\<close> for an entry point
  that failed to load (with the exception), and the two \<^verbatim>\<open>_LOG.warning\<close> calls.
\<close>

datatype log_record =
    LoadFailed string error
  | MissingProviderKind nat
  | UnsupportedObject string nat

fun is_failure :: "log_record \<Rightarrow> bool" where
  "is_failure (LoadFailed _ _) = True"
| "is_failure _ = False"

fun is_warning :: "log_record \<Rightarrow> bool" where
  "is_warning (LoadFailed _ _) = False"
| "is_warning _ = True"

record world =
  globals :: gstate
  LOG :: "log_record list"

definition initial_world :: world where
  "initial_world = \<lparr>globals = initial_gstate, LOG = []\<rparr>"

definition ENTRY_POINT_GROUP :: string where
  "ENTRY_POINT_GROUP = ''anibridge.providers''"

text \<open>
  One round of the loop. The result \<open>Some e\<close> is an exception that leaves the loop
  and the loader; \<open>None\<close> goes on to the next entry point. The class branch registers
  when \<^verbatim>\<open>PROVIDER_KIND\<close> is an instance of \<^verbatim>\<open>ProviderKind\<close> and warns otherwise.
\<close>

definition process_entry :: "entry_point \<Rightarrow> world \<Rightarrow> error option \<times> world" where
  "process_entry entry w =
     (case ep_load entry (globals w) of
        (Inl e, g1) \<Rightarrow>
          if is_Exception e
          then (None, \<lparr>globals = g1, LOG = LOG w @ [LoadFailed (ep_name entry) e]\<rparr>)
          else (Some e, w\<lparr>globals := g1\<rparr>)
      | (Inr obj, g1) \<Rightarrow>
          if callable obj then
            (let (a, g2) = get_global_registry g1
             in case call1 obj a g2 of
                  (None, g3) \<Rightarrow> (None, w\<lparr>globals := g3\<rparr>)
                | (Some e, g3) \<Rightarrow>
                    if is_TypeError e
                    then (case call0 obj g3 of (r, g4) \<Rightarrow> (r, w\<lparr>globals := g4\<rparr>))
                    else (Some e, w\<lparr>globals := g3\<rparr>))
          else if isinstance_type obj then
            (let ns = getattr_NAMESPACE obj (ep_name entry);
                 kind_val = getattr_PROVIDER_KIND obj
             in case kind_val of
                  KindVal k \<Rightarrow> (None, w\<lparr>globals := snd (register_kind k ns (ref_of obj) g1)\<rparr>)
                | _ \<Rightarrow> (None, \<lparr>globals = g1, LOG = LOG w @ [MissingProviderKind (ref_of obj)]\<rparr>))
          else
            (None, \<lparr>globals = g1, LOG = LOG w @ [UnsupportedObject (ep_name entry) (ref_of obj)]\<rparr>))"

fun load_loop :: "entry_point list \<Rightarrow> world \<Rightarrow> error option \<times> world" where
  "load_loop [] w = (None, w)"
| "load_loop (entry # rest) w =
     (case process_entry entry w of
        (Some e, w') \<Rightarrow> (Some e, w')
      | (None, w') \<Rightarrow> load_loop rest w')"

text \<open>
  \<^verbatim>\<open>metadata.entry_points()\<close> is the host's: \<open>eps\<close> gives the entry points declared under
  each group.
\<close>

definition load_entry_points :: "(string \<Rightarrow> entry_point list) \<Rightarrow> string \<Rightarrow> world \<Rightarrow> error option \<times> world" where
  "load_entry_points eps grp w = load_loop (eps grp) w"

subsection \<open>Example entry points\<close>

text \<open>
  Host metadata that declares the given entry points under the default group.
  \<^verbatim>\<open>provider_init\<close> is the constructor \<^verbatim>\<open>BaseProvider\<close> declares,
  \<^verbatim>\<open>__init__(self, *, config=None)\<close>: a positional argument is a \<^verbatim>\<open>TypeError\<close>, no
  argument constructs an instance. The entry points load, in turn: a provider class
  with both class attributes, a provider class without \<^verbatim>\<open>PROVIDER_KIND\<close>, a function
  that raises when called, a function that registers a list provider in the registry
  it is given, and a module that cannot be imported.
\<close>

definition declared :: "entry_point list \<Rightarrow> string \<Rightarrow> entry_point list" where
  "declared entries grp = (if grp = ENTRY_POINT_GROUP then entries else [])"

definition provider_init :: behaviour where
  "provider_init =
     \<lparr>call_with_registry =
        (\<lambda>a g. (Some (TypeError ''__init__() takes 1 positional argument but 2 were given''), g)),
      call_without_args = (\<lambda>g. (None, g))\<rparr>"

definition demo_entry :: entry_point where
  "demo_entry =
     \<lparr>ep_name = ''demo'',
      ep_load = (\<lambda>g. (Inr (Class 1 (Some ''Demo'') (Some (KindVal LIBRARY)) provider_init), g))\<rparr>"

definition nokind_entry :: entry_point where
  "nokind_entry =
     \<lparr>ep_name = ''nokind'',
      ep_load = (\<lambda>g. (Inr (Class 2 (Some ''NoKind'') None provider_init), g))\<rparr>"

definition raising_entry :: entry_point where
  "raising_entry =
     \<lparr>ep_name = ''raising'',
      ep_load = (\<lambda>g. (Inr (Function 3
         \<lparr>call_with_registry = (\<lambda>a g. (Some (OtherException ''boom''), g)),
          call_without_args = (\<lambda>g. (None, g))\<rparr>), g))\<rparr>"

definition registering_entry :: entry_point where
  "registering_entry =
     \<lparr>ep_name = ''anilist'',
      ep_load = (\<lambda>g. (Inr (Function 4
         \<lparr>call_with_registry =
            (\<lambda>a g. (None, snd (register_at a (ProviderDescriptor_init ''AniList'' LIST 7) g))),
          call_without_args = (\<lambda>g. (None, g))\<rparr>), g))\<rparr>"

definition broken_entry :: entry_point where
  "broken_entry =
     \<lparr>ep_name = ''broken'',
      ep_load = (\<lambda>g. (Inl (ImportError ''missing_plugin''), g))\<rparr>"

section \<open>Properties of the registry\<close>

lemma distinct_registers:
  "distinct (map fst r) \<Longrightarrow> distinct (map fst (registers ds r))"
  by (induction ds arbitrary: r) (simp_all add: register_def distinct_update)

lemma live_at_distinct:
  "distinct (map fst r) \<Longrightarrow> live_at r key = (if key \<in> fst ` set r then 1 else 0)"
  by (induction r) (auto simp: live_at_def)

lemma length_update_present:
  "key \<in> fst ` set r \<Longrightarrow> length (AList.update key v r) = length r"
  by (induction r) auto

lemma lower_AniList: "lower ''AniList'' = ''anilist''"
  by code_simp

lemma lower_anilist: "lower ''anilist'' = ''anilist''"
  by code_simp


text \<open>
  C1. Whatever the kind, the namespace string and the implementation class: registering
  the descriptor constructed from them and then looking up the kind with the namespace
  in any casing (any string with the same lowercase form) gives a descriptor with that
  kind and implementation whose namespace is the lowercased input namespace.
  \<^verbatim>\<open>register\<close> returns that same descriptor.
\<close>

theorem register_then_get:
  assumes "lower ns' = lower ns"
  shows "fst (register (ProviderDescriptor_init ns k cls) r)
           = \<lparr>namespace = lower ns, kind = k, provider_cls = cls\<rparr>
       \<and> get (snd (register (ProviderDescriptor_init ns k cls) r)) k ns'
           = Some \<lparr>namespace = lower ns, kind = k, provider_cls = cls\<rparr>"
  using assms
  by (simp add: register_def get_def ProviderDescriptor_init_def update_conv')

theorem register_then_get_witness:
  "lower ''anilist'' = lower ''AniList''
   \<and> get (snd (register (ProviderDescriptor_init ''AniList'' LIST 7) empty_registry)) LIST ''anilist''
       = Some \<lparr>namespace = ''anilist'', kind = LIST, provider_cls = 7\<rparr>"
  using register_then_get [of "''anilist''" "''AniList''" LIST 7 empty_registry]
    lower_AniList lower_anilist
  by simp

text \<open>
  C2. In every registry state reached from a fresh registry by registrations, registering
  a second descriptor with the kind and namespace of the first leaves exactly one
  descriptor at that key, the second one, which is what \<^verbatim>\<open>get\<close> returns; the repeat
  registration does not change the length of \<^verbatim>\<open>available()\<close>; and no key ever holds more
  than one descriptor.
\<close>

theorem register_twice_last_wins:
  assumes "kind d2 = kind d1" and "namespace d2 = namespace d1"
    and "lower ns = namespace d1"
  shows "get (snd (register d2 (snd (register d1 (registers ds empty_registry))))) (kind d1) ns = Some d2
     \<and> live_at (snd (register d2 (snd (register d1 (registers ds empty_registry))))) (kind d1, namespace d1) = 1
     \<and> length (available (snd (register d2 (snd (register d1 (registers ds empty_registry))))))
         = length (available (snd (register d1 (registers ds empty_registry))))
     \<and> (\<forall>key. live_at (registers ds empty_registry) key \<le> 1)"
proof -
  let ?r = "registers ds empty_registry"
  let ?r1 = "snd (register d1 ?r)"
  let ?r2 = "snd (register d2 ?r1)"
  have dr: "distinct (map fst ?r)"
    by (rule distinct_registers) (simp add: empty_registry_def)
  then have d1: "distinct (map fst ?r1)"
    by (simp add: register_def distinct_update)
  then have d2: "distinct (map fst ?r2)"
    by (simp add: register_def distinct_update)
  have k1: "(kind d1, namespace d1) \<in> fst ` set ?r1"
    by (simp add: register_def dom_update)
  have k2: "(kind d1, namespace d1) \<in> fst ` set ?r2"
    using assms by (simp add: register_def dom_update)
  have found: "get ?r2 (kind d1) ns = Some d2"
    using assms by (simp add: register_def get_def update_conv')
  have one: "live_at ?r2 (kind d1, namespace d1) = 1"
    using d2 k2 by (simp add: live_at_distinct)
  have same_length: "length (available ?r2) = length (available ?r1)"
    using k1 assms by (simp add: available_def register_def[of d2] length_update_present)
  have at_most_one: "\<forall>key. live_at ?r key \<le> 1"
    using dr by (simp add: live_at_distinct)
  show ?thesis
    using found one same_length at_most_one by blast
qed

theorem register_twice_last_wins_witness:
  "get (snd (register \<lparr>namespace = ''anilist'', kind = LIST, provider_cls = 2\<rparr>
          (snd (register \<lparr>namespace = ''anilist'', kind = LIST, provider_cls = 1\<rparr>
             (registers [\<lparr>namespace = ''mal'', kind = LIST, provider_cls = 3\<rparr>] empty_registry)))))
       LIST ''AniList''
     = Some \<lparr>namespace = ''anilist'', kind = LIST, provider_cls = 2\<rparr>
   \<and> length (available (snd (register \<lparr>namespace = ''anilist'', kind = LIST, provider_cls = 2\<rparr>
          (snd (register \<lparr>namespace = ''anilist'', kind = LIST, provider_cls = 1\<rparr>
             (registers [\<lparr>namespace = ''mal'', kind = LIST, provider_cls = 3\<rparr>] empty_registry)))))) = 2"
  using register_twice_last_wins
    [of "\<lparr>namespace = ''anilist'', kind = LIST, provider_cls = 2\<rparr>"
        "\<lparr>namespace = ''anilist'', kind = LIST, provider_cls = 1\<rparr>"
        "''AniList''"
        "[\<lparr>namespace = ''mal'', kind = LIST, provider_cls = 3\<rparr>]"]
    lower_AniList
  by (simp add: available_def register_def empty_registry_def)





section \<open>Properties of the resolver\<close>







lemma resolve_attrs_reaches:
  "reaches obj segs obj' \<Longrightarrow> resolve_attrs p obj segs = Inr obj'"
  by (induction rule: reaches.induct) simp_all

lemma resolve_attrs_returns:
  "resolve_attrs p obj segs = Inr obj' \<Longrightarrow> reaches obj segs obj'"
proof (induction segs arbitrary: obj)
  case Nil
  then show ?case by (simp add: reaches_Nil)
next
  case (Cons a segs)
  from Cons.prems obtain present where h: "hasattr obj a = Inr present"
    by (cases "hasattr obj a") simp_all
  have t: "present" using Cons.prems h by (cases present) simp_all
  from Cons.prems h t obtain obj1 where g: "getattr obj a = Inr obj1"
    by (cases "getattr obj a") simp_all
  have "resolve_attrs p obj1 segs = Inr obj'"
    using Cons.prems h t g by simp
  from Cons.IH[OF this] show ?case
    using h t g by (simp add: reaches_Cons)
qed

lemma resolve_attrs_missing:
  "reaches obj pre obj' \<Longrightarrow> hasattr obj' seg = Inr False
   \<Longrightarrow> resolve_attrs p obj (pre @ seg # post) = Inl (ValueError (attribute_message seg p))"
  by (induction rule: reaches.induct) simp_all

lemma load_object_split:
  assumes "CHR '':'' \<in> set p" and "str_split1 (CHR '':'') p = (module_path, qualname)"
    and "module_path \<noteq> []" and "qualname \<noteq> []"
  shows "load_object imp p =
     (case imp module_path of
        Inl e \<Rightarrow> Inl e
      | Inr m \<Rightarrow> resolve_attrs p m (str_split (CHR ''.'') qualname))"
  using assms by (simp add: load_object_def)





lemma split1_ex1: "str_split1 (CHR '':'') ''pkg.mod:Class.attr'' = (''pkg.mod'', ''Class.attr'')"
  by (simp add: str_split1_def)

lemma split_ex1: "str_split (CHR ''.'') ''Class.attr'' = [''Class'', ''attr'']"
  by simp

text \<open>
  C5. For a well-formed reference whose container loads to \<open>m\<close>: when following the
  dot-separated names from \<open>m\<close>, left to right, each one existing on the object reached
  so far, ends at an object, \<^verbatim>\<open>load_object\<close> returns that object; when the names up to
  some segment are reached and \<^verbatim>\<open>hasattr\<close> finds that segment missing on the object
  reached so far, it fails with the \<^verbatim>\<open>ValueError\<close> whose message is
  \<^verbatim>\<open>Attribute '<segment>' not found while resolving '<reference>'\<close>, with that segment
  and the original reference; and whatever it returns is the object the whole walk
  reaches, so it never stops early.
\<close>

theorem load_object_walk:
  assumes "CHR '':'' \<in> set p" and "str_split1 (CHR '':'') p = (module_path, qualname)"
    and "module_path \<noteq> []" and "qualname \<noteq> []"
    and "import_module module_path = Inr m"
  shows "(\<forall>obj. reaches m (str_split (CHR ''.'') qualname) obj
            \<longrightarrow> load_object import_module p = Inr obj)
       \<and> (\<forall>pre seg post obj.
            str_split (CHR ''.'') qualname = pre @ seg # post \<and> reaches m pre obj
              \<and> hasattr obj seg = Inr False
            \<longrightarrow> load_object import_module p =
                  Inl (ValueError (''Attribute '' @ [CHR 0x27] @ seg @ [CHR 0x27]
                         @ '' not found while resolving '' @ [CHR 0x27] @ p @ [CHR 0x27])))
       \<and> (\<forall>obj. load_object import_module p = Inr obj
            \<longrightarrow> reaches m (str_split (CHR ''.'') qualname) obj)"
proof -
  have eq: "load_object import_module p = resolve_attrs p m (str_split (CHR ''.'') qualname)"
    using load_object_split[OF assms(1-4), of import_module] assms(5) by simp
  have found: "\<forall>obj. reaches m (str_split (CHR ''.'') qualname) obj
            \<longrightarrow> load_object import_module p = Inr obj"
    using eq resolve_attrs_reaches by simp
  have missing: "\<forall>pre seg post obj.
            str_split (CHR ''.'') qualname = pre @ seg # post \<and> reaches m pre obj
              \<and> hasattr obj seg = Inr False
            \<longrightarrow> load_object import_module p =
                  Inl (ValueError (''Attribute '' @ [CHR 0x27] @ seg @ [CHR 0x27]
                         @ '' not found while resolving '' @ [CHR 0x27] @ p @ [CHR 0x27]))"
  proof (intro allI impI)
    fix pre seg post obj
    assume h: "str_split (CHR ''.'') qualname = pre @ seg # post \<and> reaches m pre obj
              \<and> hasattr obj seg = Inr False"
    then have "resolve_attrs p m (pre @ seg # post) = Inl (ValueError (attribute_message seg p))"
      using resolve_attrs_missing by blast
    then show "load_object import_module p =
                  Inl (ValueError (''Attribute '' @ [CHR 0x27] @ seg @ [CHR 0x27]
                         @ '' not found while resolving '' @ [CHR 0x27] @ p @ [CHR 0x27]))"
      using eq h by (simp add: attribute_message_def)
  qed
  have returned: "\<forall>obj. load_object import_module p = Inr obj
            \<longrightarrow> reaches m (str_split (CHR ''.'') qualname) obj"
    using eq resolve_attrs_returns by simp
  show ?thesis
    by (rule conjI[OF found conjI[OF missing returned]])
qed

theorem load_object_walk_witness:
  "load_object (single_module ''pkg.mod'' module_Class_attr) ''pkg.mod:Class.attr'' = Inr (PyObj 2 [])
   \<and> load_object (single_module ''pkg.mod'' module_Class) ''pkg.mod:Class.attr''
       = Inl (ValueError (''Attribute '' @ [CHR 0x27] @ ''attr'' @ [CHR 0x27]
                @ '' not found while resolving '' @ [CHR 0x27] @ ''pkg.mod:Class.attr'' @ [CHR 0x27]))"
proof -
  have r1: "reaches module_Class_attr [''Class'', ''attr''] (PyObj 2 [])"
    unfolding module_Class_attr_def
    by (rule reaches_Cons[where obj' = "PyObj 1 [(''attr'', plain (PyObj 2 []))]"],
        simp add: hasattr_def plain_def, simp add: getattr_def plain_def,
        rule reaches_Cons[where obj' = "PyObj 2 []"],
        simp add: hasattr_def plain_def, simp add: getattr_def plain_def, rule reaches_Nil)
  have r2: "reaches module_Class [''Class''] (PyObj 1 [])"
    unfolding module_Class_def
    by (rule reaches_Cons[where obj' = "PyObj 1 []"],
        simp add: hasattr_def plain_def, simp add: getattr_def plain_def, rule reaches_Nil)
  have c: "CHR '':'' \<in> set ''pkg.mod:Class.attr''" by simp
  have n: "''pkg.mod'' \<noteq> []" "''Class.attr'' \<noteq> []" by simp_all
  have a: "load_object (single_module ''pkg.mod'' module_Class_attr) ''pkg.mod:Class.attr'' = Inr (PyObj 2 [])"
  proof -
    have m: "single_module ''pkg.mod'' module_Class_attr ''pkg.mod'' = Inr module_Class_attr"
      by (simp add: single_module_def)
    have r: "reaches module_Class_attr (str_split (CHR ''.'') ''Class.attr'') (PyObj 2 [])"
      using r1 by (simp only: split_ex1)
    note w = load_object_walk[OF c split1_ex1 n,
        of "single_module ''pkg.mod'' module_Class_attr" module_Class_attr, OF m]
    from w have "\<forall>obj. reaches module_Class_attr (str_split (CHR ''.'') ''Class.attr'') obj
        \<longrightarrow> load_object (single_module ''pkg.mod'' module_Class_attr) ''pkg.mod:Class.attr'' = Inr obj"
      by (rule conjunct1)
    from this[rule_format, OF r] show ?thesis .
  qed
  have b: "load_object (single_module ''pkg.mod'' module_Class) ''pkg.mod:Class.attr''
       = Inl (ValueError (''Attribute '' @ [CHR 0x27] @ ''attr'' @ [CHR 0x27]
                @ '' not found while resolving '' @ [CHR 0x27] @ ''pkg.mod:Class.attr'' @ [CHR 0x27]))"
  proof -
    have m: "single_module ''pkg.mod'' module_Class ''pkg.mod'' = Inr module_Class"
      by (simp add: single_module_def)
    have s: "str_split (CHR ''.'') ''Class.attr'' = [''Class''] @ ''attr'' # []
        \<and> reaches module_Class [''Class''] (PyObj 1 [])
        \<and> hasattr (PyObj 1 []) ''attr'' = Inr False"
      using r2 split_ex1 by (simp add: hasattr_def)
    note w = load_object_walk[OF c split1_ex1 n,
        of "single_module ''pkg.mod'' module_Class" module_Class, OF m]
    from w have "\<forall>pre seg post obj.
            str_split (CHR ''.'') ''Class.attr'' = pre @ seg # post \<and> reaches module_Class pre obj
              \<and> hasattr obj seg = Inr False
            \<longrightarrow> load_object (single_module ''pkg.mod'' module_Class) ''pkg.mod:Class.attr'' =
                  Inl (ValueError (''Attribute '' @ [CHR 0x27] @ seg @ [CHR 0x27]
                         @ '' not found while resolving '' @ [CHR 0x27] @ ''pkg.mod:Class.attr''
                         @ [CHR 0x27]))"
      by (rule conjunct1[OF conjunct2])
    from this[rule_format, OF s] show ?thesis .
  qed
  show ?thesis by (rule conjI[OF a b])
qed





section \<open>Properties of the process-wide registry\<close>

lemma get_global_registry_cell:
  "GLOBAL_REGISTRY g = Some a \<Longrightarrow> get_global_registry g = (a, g)"
  by (simp add: get_global_registry_def)

lemma get_global_registry_one_instance:
  assumes "one_instance g"
  shows "fst (get_global_registry g) = 0
       \<and> one_instance (snd (get_global_registry g))
       \<and> GLOBAL_REGISTRY (snd (get_global_registry g)) = Some 0"
  using assms
  by (auto simp: one_instance_def get_global_registry_def Let_def split: option.splits)

lemma register_at_cell [simp]:
  "GLOBAL_REGISTRY (snd (register_at a d g)) = GLOBAL_REGISTRY g"
  "length (heap (snd (register_at a d g))) = length (heap g)"
  by (simp_all add: register_at_def)

lemma register_at_one_instance:
  "one_instance g \<Longrightarrow> one_instance (snd (register_at a d g))"
  by (auto simp: one_instance_def register_at_def split: option.splits)

lemma register_kind_snd:
  "snd (register_kind k ns cls g) =
     snd (register_at (fst (get_global_registry g)) (ProviderDescriptor_init ns k cls)
            (snd (get_global_registry g)))"
  by (simp add: register_kind_def Let_def split: prod.splits)

lemma register_kind_one_instance:
  assumes "one_instance g"
  shows "one_instance (snd (register_kind k ns cls g))
       \<and> GLOBAL_REGISTRY (snd (register_kind k ns cls g)) = Some 0"
  using get_global_registry_one_instance[OF assms]
  by (simp add: register_kind_snd register_at_one_instance)

lemma register_kind_keeps_cell:
  "GLOBAL_REGISTRY g = Some a \<Longrightarrow> GLOBAL_REGISTRY (snd (register_kind k ns cls g)) = Some a"
  by (simp add: register_kind_snd get_global_registry_cell)

lemma perform_one_instance:
  assumes "one_instance g"
  shows "one_instance (snd (perform act g))
       \<and> (\<forall>a. fst (perform act g) = Some a \<longrightarrow> a = 0 \<and> GLOBAL_REGISTRY (snd (perform act g)) = Some 0)"
proof (cases act)
  case CallGetGlobalRegistry
  then show ?thesis
    using get_global_registry_one_instance[OF assms]
    by (simp add: split_beta)
next
  case (CallRegister a d)
  then show ?thesis using assms by (simp add: register_at_one_instance)
next
  case (CallRegisterLibraryProvider ns cls)
  then show ?thesis
    using register_kind_one_instance[OF assms] by (simp add: register_library_provider_def)
next
  case (CallRegisterListProvider ns cls)
  then show ?thesis
    using register_kind_one_instance[OF assms] by (simp add: register_list_provider_def)
qed (use assms in simp_all)

lemma perform_keeps_cell:
  "GLOBAL_REGISTRY g = Some a \<Longrightarrow> GLOBAL_REGISTRY (snd (perform act g)) = Some a"
  by (cases act)
     (simp_all add: get_global_registry_cell register_kind_keeps_cell
        register_library_provider_def register_list_provider_def)

lemma run_keeps_cell:
  "GLOBAL_REGISTRY g = Some a \<Longrightarrow> GLOBAL_REGISTRY (snd (run acts g)) = Some a"
proof (induction acts arbitrary: g)
  case Nil
  then show ?case by simp
next
  case (Cons act acts)
  from Cons.IH[OF perform_keeps_cell[OF Cons.prems]] show ?case
    by (simp add: split_beta)
qed

lemma run_one_instance:
  "one_instance g \<Longrightarrow>
     one_instance (snd (run acts g))
     \<and> (\<forall>a \<in> set (fst (run acts g)). a = 0)
     \<and> (fst (run acts g) \<noteq> [] \<longrightarrow> GLOBAL_REGISTRY (snd (run acts g)) = Some 0)"
proof (induction acts arbitrary: g)
  case Nil
  then show ?case by simp
next
  case (Cons act acts)
  let ?g1 = "snd (perform act g)"
  have p: "one_instance ?g1"
    and q: "\<forall>a. fst (perform act g) = Some a \<longrightarrow> a = 0 \<and> GLOBAL_REGISTRY ?g1 = Some 0"
    using perform_one_instance[OF Cons.prems] by simp_all
  note ih = Cons.IH[OF p]
  have keep: "GLOBAL_REGISTRY ?g1 = Some 0 \<Longrightarrow> GLOBAL_REGISTRY (snd (run acts ?g1)) = Some 0"
    by (rule run_keeps_cell)
  show ?case
    using ih q keep
    by (auto simp: split_beta split: option.splits)
qed

text \<open>
  C9. Starting with no registry constructed, after any sequence of accessor calls,
  registry method calls and registration helpers: every accessor call returned the same
  address; at most one \<^verbatim>\<open>ProviderRegistry\<close> instance has been constructed, and exactly one
  as soon as the accessor has been called; nothing is constructed before the first call,
  which constructs the registry; and no operation resets the module variable once it is
  set.
\<close>

theorem global_registry_singleton:
  "(\<forall>a \<in> set (fst (run acts initial_gstate)). a = 0)
   \<and> length (heap (snd (run acts initial_gstate))) \<le> 1
   \<and> (fst (run acts initial_gstate) \<noteq> []
        \<longrightarrow> GLOBAL_REGISTRY (snd (run acts initial_gstate)) = Some 0
            \<and> length (heap (snd (run acts initial_gstate))) = 1)
   \<and> GLOBAL_REGISTRY initial_gstate = None \<and> heap initial_gstate = []
   \<and> get_global_registry initial_gstate = (0, \<lparr>GLOBAL_REGISTRY = Some 0, heap = [empty_registry]\<rparr>)
   \<and> (\<forall>act g a. GLOBAL_REGISTRY g = Some a \<longrightarrow> GLOBAL_REGISTRY (snd (perform act g)) = Some a)"
proof -
  have i: "one_instance initial_gstate"
    by (simp add: one_instance_def initial_gstate_def)
  note r = run_one_instance[OF i, of acts]
  have le: "length (heap (snd (run acts initial_gstate))) \<le> 1"
    using r by (auto simp: one_instance_def split: option.splits)
  have one: "fst (run acts initial_gstate) \<noteq> []
        \<longrightarrow> GLOBAL_REGISTRY (snd (run acts initial_gstate)) = Some 0
            \<and> length (heap (snd (run acts initial_gstate))) = 1"
    using r by (auto simp: one_instance_def split: option.splits)
  have first: "get_global_registry initial_gstate = (0, \<lparr>GLOBAL_REGISTRY = Some 0, heap = [empty_registry]\<rparr>)"
    by (simp add: get_global_registry_def initial_gstate_def)
  show ?thesis
    using r le one first perform_keeps_cell
    by (simp add: initial_gstate_def)
qed

theorem global_registry_singleton_witness:
  "fst (run [CallGetGlobalRegistry, CallRegisterListProvider ''AniList'' 7,
             CallRegister 0 \<lparr>namespace = ''mal'', kind = LIST, provider_cls = 3\<rparr>,
             CallGetGlobalRegistry] initial_gstate) = [0, 0]
   \<and> length (heap (snd (run [CallGetGlobalRegistry, CallRegisterListProvider ''AniList'' 7,
             CallRegister 0 \<lparr>namespace = ''mal'', kind = LIST, provider_cls = 3\<rparr>,
             CallGetGlobalRegistry] initial_gstate))) = 1"
proof -
  let ?acts = "[CallGetGlobalRegistry, CallRegisterListProvider ''AniList'' 7,
             CallRegister 0 \<lparr>namespace = ''mal'', kind = LIST, provider_cls = 3\<rparr>,
             CallGetGlobalRegistry]"
  have rs: "fst (run ?acts initial_gstate) = [0, 0]"
    by (simp add: initial_gstate_def get_global_registry_def register_list_provider_def
          register_kind_def register_at_def Let_def split_beta)
  then have ne: "fst (run ?acts initial_gstate) \<noteq> []" by simp
  from global_registry_singleton[of ?acts]
  have "fst (run ?acts initial_gstate) \<noteq> []
        \<longrightarrow> GLOBAL_REGISTRY (snd (run ?acts initial_gstate)) = Some 0
            \<and> length (heap (snd (run ?acts initial_gstate))) = 1"
    by (rule conjunct1[OF conjunct2[OF conjunct2]])
  from this[rule_format, OF ne] have "length (heap (snd (run ?acts initial_gstate))) = 1"
    by (rule conjunct2)
  with rs show ?thesis by (rule conjI)
qed

section \<open>Properties of the extension-point loader\<close>

lemma class_is_callable: "isinstance_type obj \<Longrightarrow> callable obj"
  by (cases obj) simp_all

text \<open>
  C7 fails on the code. The entry point \<^verbatim>\<open>demo\<close> loads a provider class with
  \<^verbatim>\<open>NAMESPACE = "Demo"\<close> and \<^verbatim>\<open>PROVIDER_KIND = ProviderKind.LIBRARY\<close>. A class is callable,
  so the loader takes the first branch: it calls the class with the registry, gets the
  \<^verbatim>\<open>TypeError\<close>, calls it without arguments, and goes on. The registry stays empty.
\<close>

theorem class_entry_not_registered:
  "load_entry_points (declared [demo_entry]) ENTRY_POINT_GROUP initial_world
     = (None, \<lparr>globals = \<lparr>GLOBAL_REGISTRY = Some 0, heap = [empty_registry]\<rparr>, LOG = []\<rparr>)
   \<and> get empty_registry LIBRARY ''Demo'' = None
   \<and> available empty_registry = []"
  by (simp add: load_entry_points_def declared_def demo_entry_def process_entry_def
        initial_world_def initial_gstate_def get_global_registry_def provider_init_def
        get_def available_def empty_registry_def)

text \<open>
  C8 fails on the code. The entry point \<^verbatim>\<open>nokind\<close> loads a provider class without
  \<^verbatim>\<open>PROVIDER_KIND\<close>. The loader calls the class, as above, and writes no warning.
\<close>

theorem class_without_kind_no_warning:
  "load_entry_points (declared [nokind_entry]) ENTRY_POINT_GROUP initial_world
     = (None, \<lparr>globals = \<lparr>GLOBAL_REGISTRY = Some 0, heap = [empty_registry]\<rparr>, LOG = []\<rparr>)"
  by (simp add: load_entry_points_def declared_def nokind_entry_def process_entry_def
        initial_world_def initial_gstate_def get_global_registry_def provider_init_def)

text \<open>
  C3, as stated, fails: with one entry point, whose loaded function raises when it is
  called with the registry, the exception leaves the loader.
\<close>

theorem raising_callable_counterexample:
  "load_entry_points (declared [raising_entry]) ENTRY_POINT_GROUP initial_world
     = (Some (OtherException ''boom''),
        \<lparr>globals = \<lparr>GLOBAL_REGISTRY = Some 0, heap = [empty_registry]\<rparr>, LOG = []\<rparr>)"
  by (simp add: load_entry_points_def declared_def raising_entry_def process_entry_def
        initial_world_def initial_gstate_def get_global_registry_def)


lemma failure_or_warning: "is_warning x = (\<not> is_failure x)"
  by (cases x) simp_all

lemma process_entry_frame:
  "process_entry entry w =
     (fst (process_entry entry \<lparr>globals = globals w, LOG = []\<rparr>),
      \<lparr>globals = globals (snd (process_entry entry \<lparr>globals = globals w, LOG = []\<rparr>)),
       LOG = LOG w @ LOG (snd (process_entry entry \<lparr>globals = globals w, LOG = []\<rparr>))\<rparr>)"
  by (cases w)
     (simp add: process_entry_def Let_def split: prod.splits sum.splits option.splits pyval.splits)

lemma load_loop_frame:
  "load_loop entries w =
     (fst (load_loop entries \<lparr>globals = globals w, LOG = []\<rparr>),
      \<lparr>globals = globals (snd (load_loop entries \<lparr>globals = globals w, LOG = []\<rparr>)),
       LOG = LOG w @ LOG (snd (load_loop entries \<lparr>globals = globals w, LOG = []\<rparr>))\<rparr>)"
proof (induction entries arbitrary: w)
  case Nil
  show ?case by simp
next
  case (Cons entry rest)
  let ?w0 = "\<lparr>globals = globals w, LOG = []\<rparr>"
  obtain r w1 where p0: "process_entry entry ?w0 = (r, w1)"
    by (cases "process_entry entry ?w0")
  have p: "process_entry entry w = (r, \<lparr>globals = globals w1, LOG = LOG w @ LOG w1\<rparr>)"
    using process_entry_frame[of entry w] p0 by simp
  show ?case
  proof (cases r)
    case (Some e)
    then show ?thesis using p p0 by simp
  next
    case None
    have a: "load_loop rest \<lparr>globals = globals w1, LOG = LOG w @ LOG w1\<rparr> =
        (fst (load_loop rest \<lparr>globals = globals w1, LOG = []\<rparr>),
         \<lparr>globals = globals (snd (load_loop rest \<lparr>globals = globals w1, LOG = []\<rparr>)),
          LOG = (LOG w @ LOG w1) @ LOG (snd (load_loop rest \<lparr>globals = globals w1, LOG = []\<rparr>))\<rparr>)"
      using Cons.IH[of "\<lparr>globals = globals w1, LOG = LOG w @ LOG w1\<rparr>"] by simp
    have b: "load_loop rest w1 =
        (fst (load_loop rest \<lparr>globals = globals w1, LOG = []\<rparr>),
         \<lparr>globals = globals (snd (load_loop rest \<lparr>globals = globals w1, LOG = []\<rparr>)),
          LOG = LOG w1 @ LOG (snd (load_loop rest \<lparr>globals = globals w1, LOG = []\<rparr>))\<rparr>)"
      using Cons.IH[of w1] by simp
    show ?thesis
      using None p p0 a b by simp
  qed
qed

lemma load_loop_append:
  "load_loop (xs @ ys) w =
     (case load_loop xs w of
        (Some e, w') \<Rightarrow> (Some e, w')
      | (None, w') \<Rightarrow> load_loop ys w')"
  by (induction xs arbitrary: w) (auto split: prod.splits option.splits)

lemma process_entry_load_fails:
  assumes "ep_load bad (globals w) = (Inl e, globals w)" and "is_Exception e"
  shows "process_entry bad w = (None, w\<lparr>LOG := LOG w @ [LoadFailed (ep_name bad) e]\<rparr>)"
  using assms by (simp add: process_entry_def)

text \<open>
  C3, amended. Among the declared entry points let one fail to load, with an exception
  that \<^verbatim>\<open>except Exception\<close> catches and without changing the global state, and let the
  loader run on the other entry points alone end without an exception and without a
  logged failure. Then the loader run on all of them ends without an exception, leaves
  the global state as the run on the others does, logs exactly one failure, for the
  entry point that failed to load, and logs the same warnings.
\<close>

theorem load_failure_is_isolated:
  assumes raises: "\<And>g. ep_load bad g = (Inl e, g)" and caught: "is_Exception e"
    and declared: "eps grp = pre @ bad # post"
    and without: "eps' grp = pre @ post"
    and others: "load_entry_points eps' grp w = (None, w')"
    and quiet: "filter is_failure (LOG w') = filter is_failure (LOG w)"
  shows "fst (load_entry_points eps grp w) = None
       \<and> globals (snd (load_entry_points eps grp w)) = globals w'
       \<and> filter is_failure (LOG (snd (load_entry_points eps grp w)))
           = filter is_failure (LOG w) @ [LoadFailed (ep_name bad) e]
       \<and> filter is_warning (LOG (snd (load_entry_points eps grp w))) = filter is_warning (LOG w')"
proof -
  obtain r1 w1 where l1: "load_loop pre w = (r1, w1)"
    by (cases "load_loop pre w")
  have o: "load_loop (pre @ post) w = (None, w')"
    using others without by (simp add: load_entry_points_def)
  have r1: "r1 = None" and l2: "load_loop post w1 = (None, w')"
    using o l1 by (auto simp: load_loop_append split: option.splits)
  let ?f = "LoadFailed (ep_name bad) e"
  let ?w0 = "\<lparr>globals = globals w1, LOG = []\<rparr>"
  obtain w2 where l0: "load_loop post ?w0 = (None, w2)"
    using load_loop_frame[of post w1] l2 by (cases "load_loop post ?w0") simp
  have w': "w' = \<lparr>globals = globals w2, LOG = LOG w1 @ LOG w2\<rparr>"
    using load_loop_frame[of post w1] l2 l0 by simp
  have pb: "process_entry bad w1 = (None, w1\<lparr>LOG := LOG w1 @ [?f]\<rparr>)"
    using raises caught by (simp add: process_entry_load_fails)
  have l3: "load_loop post (w1\<lparr>LOG := LOG w1 @ [?f]\<rparr>)
      = (None, \<lparr>globals = globals w2, LOG = (LOG w1 @ [?f]) @ LOG w2\<rparr>)"
    using load_loop_frame[of post "w1\<lparr>LOG := LOG w1 @ [?f]\<rparr>"] l0 by simp
  have all: "load_entry_points eps grp w
      = (None, \<lparr>globals = globals w2, LOG = (LOG w1 @ [?f]) @ LOG w2\<rparr>)"
    using l1 r1 pb l3 by (simp add: load_entry_points_def declared load_loop_append)
  obtain la where la: "LOG w1 = LOG w @ la"
    using load_loop_frame[of pre w] l1 by (cases w1) auto
  have "filter is_failure (LOG w @ la @ LOG w2) = filter is_failure (LOG w)"
    using quiet w' la by simp
  then have nf: "filter is_failure la = []" "filter is_failure (LOG w2) = []"
    by simp_all
  show ?thesis
    using all w' la nf by simp
qed

theorem load_failure_is_isolated_witness:
  "load_entry_points (declared [registering_entry, broken_entry]) ENTRY_POINT_GROUP initial_world
     = (None,
        \<lparr>globals = \<lparr>GLOBAL_REGISTRY = Some 0,
                    heap = [[((LIST, ''anilist''),
                              \<lparr>namespace = ''anilist'', kind = LIST, provider_cls = 7\<rparr>)]]\<rparr>,
         LOG = [LoadFailed ''broken'' (ImportError ''missing_plugin'')]\<rparr>)"
proof -
  let ?w' = "\<lparr>globals = \<lparr>GLOBAL_REGISTRY = Some 0,
                    heap = [[((LIST, ''anilist''),
                              \<lparr>namespace = ''anilist'', kind = LIST, provider_cls = 7\<rparr>)]]\<rparr>,
         LOG = []\<rparr>"
  have raises: "\<And>g. ep_load broken_entry g = (Inl (ImportError ''missing_plugin''), g)"
    by (simp add: broken_entry_def)
  have caught: "is_Exception (ImportError ''missing_plugin'')" by simp
  have declared: "declared [registering_entry, broken_entry] ENTRY_POINT_GROUP
      = [registering_entry] @ broken_entry # []"
    by (simp add: declared_def)
  have without: "declared [registering_entry] ENTRY_POINT_GROUP = [registering_entry] @ []"
    by (simp add: declared_def)
  have others: "load_entry_points (declared [registering_entry]) ENTRY_POINT_GROUP initial_world
      = (None, ?w')"
    by (simp add: load_entry_points_def declared_def registering_entry_def process_entry_def
          initial_world_def initial_gstate_def get_global_registry_def register_at_def
          register_def ProviderDescriptor_init_def lower_AniList empty_registry_def)
  have quiet: "filter is_failure (LOG ?w') = filter is_failure (LOG initial_world)"
    by (simp add: initial_world_def)
  note t = load_failure_is_isolated[where bad = broken_entry and e = "ImportError ''missing_plugin''"
      and eps = "declared [registering_entry, broken_entry]" and grp = ENTRY_POINT_GROUP
      and pre = "[registering_entry]" and post = "[]" and eps' = "declared [registering_entry]"
      and w = initial_world and w' = ?w', OF raises caught declared without others quiet]
  obtain r w2 where res:
    "load_entry_points (declared [registering_entry, broken_entry]) ENTRY_POINT_GROUP initial_world = (r, w2)"
    by (cases "load_entry_points (declared [registering_entry, broken_entry]) ENTRY_POINT_GROUP initial_world")
  have r: "r = None" and g: "globals w2 = globals ?w'"
    and f: "filter is_failure (LOG w2) = [LoadFailed ''broken'' (ImportError ''missing_plugin'')]"
    and wn: "filter is_warning (LOG w2) = []"
    using t res by (simp_all add: initial_world_def broken_entry_def)
  have "LOG w2 = [LoadFailed ''broken'' (ImportError ''missing_plugin'')]"
  proof -
    have "\<forall>x \<in> set (LOG w2). is_failure x"
      using wn by (simp add: filter_empty_conv failure_or_warning)
    then have "filter is_failure (LOG w2) = LOG w2" by simp
    with f show ?thesis by simp
  qed
  with r g res show ?thesis by (cases w2) simp
qed

end
